theory Spec2Isabelle
  imports Complex_Main
begin

section \<open>The ledger store of shop_bot/data_manager/database.py\<close>

text \<open>
  The module keeps its state in an SQLite file. The part of it that the ledger functions
  touch is embedded as an explicit store value that every function takes and returns:
  \<^item> table \<^verbatim>\<open>users\<close>, with \<^verbatim>\<open>telegram_id INTEGER PRIMARY KEY\<close>, is a map from the
    telegram id to the remaining columns of the row;
  \<^item> table \<^verbatim>\<open>transactions\<close> is the list of its rows in insertion order, together with
    the largest \<^verbatim>\<open>transaction_id\<close> handed out so far (\<^verbatim>\<open>AUTOINCREMENT\<close>).

  Scope of the embedding.
  \<^item> The \<^verbatim>\<open>REAL\<close> columns and the Python \<^verbatim>\<open>float\<close> arguments are real numbers.
    Sums and differences are exact, except in the section on the conservation of the
    balance, whose claim depends on the rounding to double precision and where it is
    modelled; infinities and NaN are outside the model.
  \<^item> The numeric columns are never \<^verbatim>\<open>NULL\<close>: the schema gives them \<^verbatim>\<open>DEFAULT 0\<close> and
    every writer in the module is typed to store a \<^verbatim>\<open>float\<close>.
  \<^item> Every function body runs as one serial unit on the store (one connection, one
    commit). The \<^verbatim>\<open>except sqlite3.Error\<close> branches are modelled where the store itself
    decides them (the \<^verbatim>\<open>UNIQUE\<close> constraint on \<^verbatim>\<open>payment_id\<close>); an unavailable or
    locked database file is not part of the store and is not modelled.
  \<^item> \<^verbatim>\<open>datetime.now()\<close> and \<^verbatim>\<open>CURRENT_TIMESTAMP\<close> are an argument \<open>now\<close>.
  \<^item> \<^verbatim>\<open>json.dumps\<close> and \<^verbatim>\<open>json.loads\<close> are kept abstract: the metadata is the JSON
    text that the column stores.
\<close>

type_synonym timestamp = nat

record user_row =
  username :: string
  total_spent :: real
  total_months :: int
  trial_used :: bool
  agreed_to_terms :: bool
  registration_date :: timestamp
  is_banned :: bool
  balance :: real
  referred_by :: "int option"
  referral_balance :: real
  referral_balance_all :: real
  referral_start_bonus_received :: bool

record transaction_row =
  tx_username :: "string option"
  tx_transaction_id :: nat
  tx_payment_id :: string
  tx_user_id :: int
  tx_status :: string
  tx_amount_rub :: real
  tx_amount_currency :: "real option"
  tx_currency_name :: "string option"
  tx_payment_method :: "string option"
  tx_metadata :: string
  tx_created_date :: timestamp

record store =
  users :: "int \<rightharpoonup> user_row"
  transactions :: "transaction_row list"
  transactions_seq :: nat

subsection \<open>SQL helpers\<close>

text \<open>
  \<^verbatim>\<open>UPDATE users SET ... WHERE telegram_id = ?\<close>: the row of that id, when there is one,
  is replaced; otherwise nothing changes. \<open>rowcount\<close> is what \<^verbatim>\<open>cursor.rowcount > 0\<close>
  reads after such an update.
\<close>

definition update_user :: "store \<Rightarrow> int \<Rightarrow> (user_row \<Rightarrow> user_row) \<Rightarrow> store" where
  "update_user s telegram_id f =
     (case users s telegram_id of
        None \<Rightarrow> s
      | Some row \<Rightarrow> s\<lparr>users := (users s)(telegram_id \<mapsto> f row)\<rparr>)"

definition rowcount :: "store \<Rightarrow> int \<Rightarrow> bool" where
  "rowcount s telegram_id = (case users s telegram_id of None \<Rightarrow> False | Some row \<Rightarrow> True)"

subsection \<open>Registration\<close>

text \<open>The row that the \<^verbatim>\<open>INSERT INTO users\<close> of registration creates: the four given
  columns, every other column at its schema default.\<close>

definition new_user_row :: "string \<Rightarrow> timestamp \<Rightarrow> int option \<Rightarrow> user_row" where
  "new_user_row uname now referrer_id =
     \<lparr>username = uname, total_spent = 0, total_months = 0, trial_used = False,
      agreed_to_terms = False, registration_date = now, is_banned = False, balance = 0,
      referred_by = referrer_id, referral_balance = 0, referral_balance_all = 0,
      referral_start_bonus_received = False\<rparr>"

text \<open>
  \<^verbatim>\<open>register_user_if_not_exists(telegram_id, username, referrer_id)\<close>. The untyped
  \<open>referrer_id\<close> is \<^verbatim>\<open>None\<close> or an integer; Python's truth test \<^verbatim>\<open>if referrer_id\<close>
  rejects \<^verbatim>\<open>None\<close> and \<open>0\<close>. The stored \<open>referred_by\<close> counts as empty exactly when it is
  \<^verbatim>\<open>NULL\<close> (the text of an integer is never blank). A referrer that is a string, on
  which \<^verbatim>\<open>int()\<close> may raise, is outside the model.
\<close>

definition register_user_if_not_exists ::
    "store \<Rightarrow> int \<Rightarrow> string \<Rightarrow> int option \<Rightarrow> timestamp \<Rightarrow> store" where
  "register_user_if_not_exists s telegram_id uname referrer_id now =
     (case users s telegram_id of
        None \<Rightarrow> s\<lparr>users := (users s)(telegram_id \<mapsto> new_user_row uname now referrer_id)\<rparr>
      | Some row \<Rightarrow>
          (let s1 = update_user s telegram_id (\<lambda>r. r\<lparr>username := uname\<rparr>);
               current_ref = referred_by row
           in case referrer_id of
                None \<Rightarrow> s1
              | Some r \<Rightarrow>
                  if r \<noteq> 0 \<and> current_ref = None \<and> r \<noteq> telegram_id
                  then update_user s1 telegram_id (\<lambda>u. u\<lparr>referred_by := Some r\<rparr>)
                  else s1))"

subsection \<open>Referral balance and referral lifetime earnings\<close>

definition add_to_referral_balance :: "store \<Rightarrow> int \<Rightarrow> real \<Rightarrow> store" where
  "add_to_referral_balance s user_id amount =
     update_user s user_id (\<lambda>r. r\<lparr>referral_balance := referral_balance r + amount\<rparr>)"

definition set_referral_balance :: "store \<Rightarrow> int \<Rightarrow> real \<Rightarrow> store" where
  "set_referral_balance s user_id val =
     update_user s user_id (\<lambda>r. r\<lparr>referral_balance := val\<rparr>)"

definition set_referral_balance_all :: "store \<Rightarrow> int \<Rightarrow> real \<Rightarrow> store" where
  "set_referral_balance_all s user_id val =
     update_user s user_id (\<lambda>r. r\<lparr>referral_balance_all := val\<rparr>)"

definition add_to_referral_balance_all :: "store \<Rightarrow> int \<Rightarrow> real \<Rightarrow> store" where
  "add_to_referral_balance_all s user_id amount =
     update_user s user_id (\<lambda>r. r\<lparr>referral_balance_all := referral_balance_all r + amount\<rparr>)"


definition get_referral_balance :: "store \<Rightarrow> int \<Rightarrow> real" where
  "get_referral_balance s user_id =
     (case users s user_id of None \<Rightarrow> 0 | Some row \<Rightarrow> referral_balance row)"

subsection \<open>Spendable balance\<close>

definition get_balance :: "store \<Rightarrow> int \<Rightarrow> real" where
  "get_balance s user_id =
     (case users s user_id of None \<Rightarrow> 0 | Some row \<Rightarrow> balance row)"

definition adjust_user_balance :: "store \<Rightarrow> int \<Rightarrow> real \<Rightarrow> bool \<times> store" where
  "adjust_user_balance s user_id delta =
     (rowcount s user_id, update_user s user_id (\<lambda>r. r\<lparr>balance := balance r + delta\<rparr>))"

definition set_balance :: "store \<Rightarrow> int \<Rightarrow> real \<Rightarrow> bool \<times> store" where
  "set_balance s user_id val =
     (rowcount s user_id, update_user s user_id (\<lambda>r. r\<lparr>balance := val\<rparr>))"

definition add_to_balance :: "store \<Rightarrow> int \<Rightarrow> real \<Rightarrow> bool \<times> store" where
  "add_to_balance s user_id amount =
     (rowcount s user_id, update_user s user_id (\<lambda>r. r\<lparr>balance := balance r + amount\<rparr>))"

text \<open>
  The two debits: the early return on \<^verbatim>\<open>amount <= 0\<close>, then the read of the current
  value (\<open>0.0\<close> when the user has no row), the rollback when it is too small, and the
  update otherwise.
\<close>

definition deduct_from_balance :: "store \<Rightarrow> int \<Rightarrow> real \<Rightarrow> bool \<times> store" where
  "deduct_from_balance s user_id amount =
     (if amount \<le> 0 then (True, s)
      else
        (let current = (case users s user_id of None \<Rightarrow> 0 | Some row \<Rightarrow> balance row)
         in if current < amount then (False, s)
            else (True, update_user s user_id (\<lambda>r. r\<lparr>balance := balance r - amount\<rparr>))))"

definition deduct_from_referral_balance :: "store \<Rightarrow> int \<Rightarrow> real \<Rightarrow> bool \<times> store" where
  "deduct_from_referral_balance s user_id amount =
     (if amount \<le> 0 then (True, s)
      else
        (let current = (case users s user_id of None \<Rightarrow> 0 | Some row \<Rightarrow> referral_balance row)
         in if current < amount then (False, s)
            else (True, update_user s user_id
                          (\<lambda>r. r\<lparr>referral_balance := referral_balance r - amount\<rparr>))))"

subsection \<open>Transactions\<close>

text \<open>
  \<^verbatim>\<open>create_pending_transaction\<close>: the \<^verbatim>\<open>INSERT\<close> violates \<^verbatim>\<open>payment_id TEXT UNIQUE\<close> when
  a row with that payment id exists; SQLite raises \<^verbatim>\<open>IntegrityError\<close>, a subclass of
  \<^verbatim>\<open>sqlite3.Error\<close>, nothing is written and the handler returns \<open>0\<close>. Otherwise the row
  gets the next \<^verbatim>\<open>AUTOINCREMENT\<close> id, which \<^verbatim>\<open>cursor.lastrowid\<close> returns.
\<close>

definition create_pending_transaction ::
    "store \<Rightarrow> string \<Rightarrow> int \<Rightarrow> real \<Rightarrow> string \<Rightarrow> timestamp \<Rightarrow> nat \<times> store" where
  "create_pending_transaction s payment_id user_id amount_rub metadata now =
     (if payment_id \<in> set (map tx_payment_id (transactions s)) then (0, s)
      else
        (let lastrowid = transactions_seq s + 1;
             row = \<lparr>tx_username = None, tx_transaction_id = lastrowid,
                    tx_payment_id = payment_id, tx_user_id = user_id,
                    tx_status = ''pending'', tx_amount_rub = amount_rub,
                    tx_amount_currency = None, tx_currency_name = None,
                    tx_payment_method = None, tx_metadata = metadata,
                    tx_created_date = now\<rparr>
         in (lastrowid,
             s\<lparr>transactions := transactions s @ [row], transactions_seq := lastrowid\<rparr>)))"

text \<open>
  \<^verbatim>\<open>find_and_complete_ton_transaction\<close>: the \<^verbatim>\<open>SELECT\<close> looks for a row with the payment
  id whose status is the text \<^verbatim>\<open>pending\<close>; without one the function returns \<^verbatim>\<open>None\<close>.
  With one, the \<^verbatim>\<open>UPDATE ... WHERE payment_id = ?\<close> rewrites every row of that payment
  id and the metadata of the selected row is returned.
\<close>

definition complete_ton :: "real \<Rightarrow> transaction_row \<Rightarrow> transaction_row" where
  "complete_ton amount_ton t =
     t\<lparr>tx_status := ''paid'', tx_amount_currency := Some amount_ton,
       tx_currency_name := Some ''TON'', tx_payment_method := Some ''TON''\<rparr>"

definition find_and_complete_ton_transaction ::
    "store \<Rightarrow> string \<Rightarrow> real \<Rightarrow> string option \<times> store" where
  "find_and_complete_ton_transaction s payment_id amount_ton =
     (case find (\<lambda>t. tx_payment_id t = payment_id \<and> tx_status t = ''pending'')
                (transactions s) of
        None \<Rightarrow> (None, s)
      | Some transaction \<Rightarrow>
          (Some (tx_metadata transaction),
           s\<lparr>transactions :=
               map (\<lambda>t. if tx_payment_id t = payment_id then complete_ton amount_ton t else t)
                   (transactions s)\<rparr>))"

subsection \<open>Reading a user\<close>

text \<open>\<^verbatim>\<open>get_user\<close> returns the row of a user, or \<^verbatim>\<open>None\<close>; \<open>referred_by_of\<close> is the
  \<open>referred_by\<close> field of what it returns, with a missing row read as unset.\<close>

definition get_user :: "store \<Rightarrow> int \<Rightarrow> user_row option" where
  "get_user s telegram_id = users s telegram_id"

definition referred_by_of :: "store \<Rightarrow> int \<Rightarrow> int option" where
  "referred_by_of s telegram_id =
     (case get_user s telegram_id of None \<Rightarrow> None | Some row \<Rightarrow> referred_by row)"

subsection \<open>Sequences of calls\<close>

text \<open>
  A caller issues the functions above one after the other. A call is a value of
  \<open>ledger_call\<close>, named after the function it invokes and carrying its arguments;
  \<open>exec_call\<close> runs it on the store and \<open>states_after\<close> lists the store after every
  call of a sequence.
\<close>

datatype ledger_call =
    Register_user_if_not_exists int string "int option" timestamp
  | Add_to_referral_balance int real
  | Set_referral_balance int real
  | Set_referral_balance_all int real
  | Add_to_referral_balance_all int real
  | Adjust_user_balance int real
  | Set_balance int real
  | Add_to_balance int real
  | Deduct_from_balance int real
  | Deduct_from_referral_balance int real
  | Create_pending_transaction string int real string timestamp
  | Find_and_complete_ton_transaction string real

fun exec_call :: "store \<Rightarrow> ledger_call \<Rightarrow> store" where
  "exec_call s (Register_user_if_not_exists t n r now) = register_user_if_not_exists s t n r now"
| "exec_call s (Add_to_referral_balance u a) = add_to_referral_balance s u a"
| "exec_call s (Set_referral_balance u v) = set_referral_balance s u v"
| "exec_call s (Set_referral_balance_all u v) = set_referral_balance_all s u v"
| "exec_call s (Add_to_referral_balance_all u a) = add_to_referral_balance_all s u a"
| "exec_call s (Adjust_user_balance u d) = snd (adjust_user_balance s u d)"
| "exec_call s (Set_balance u v) = snd (set_balance s u v)"
| "exec_call s (Add_to_balance u a) = snd (add_to_balance s u a)"
| "exec_call s (Deduct_from_balance u a) = snd (deduct_from_balance s u a)"
| "exec_call s (Deduct_from_referral_balance u a) = snd (deduct_from_referral_balance s u a)"
| "exec_call s (Create_pending_transaction p u a m now) =
     snd (create_pending_transaction s p u a m now)"
| "exec_call s (Find_and_complete_ton_transaction p a) =
     snd (find_and_complete_ton_transaction s p a)"

fun states_after :: "store \<Rightarrow> ledger_call list \<Rightarrow> store list" where
  "states_after s [] = []"
| "states_after s (c # cs) = exec_call s c # states_after (exec_call s c) cs"

text \<open>The calls of the spec's \<open>credit\<close> with an amount that is not negative, and of its
  \<open>debit_if_sufficient\<close> with any amount.\<close>

fun credit_or_debit :: "ledger_call \<Rightarrow> bool" where
  "credit_or_debit (Add_to_balance u a) = (0 \<le> a)"
| "credit_or_debit (Add_to_referral_balance u a) = (0 \<le> a)"
| "credit_or_debit (Deduct_from_balance u a) = True"
| "credit_or_debit (Deduct_from_referral_balance u a) = True"
| "credit_or_debit c = False"

text \<open>
  Double precision. The \<^verbatim>\<open>REAL\<close> column and the Python \<^verbatim>\<open>float\<close> are IEEE 754 binary64
  numbers, and \<^verbatim>\<open>balance + ?\<close> and \<^verbatim>\<open>balance - ?\<close> round their exact result to the
  nearest one, a tie going to the even significand. \<open>ulp x\<close> is the spacing of these
  numbers around \<open>x\<close> (53 significant bits, the exponent not below \<open>-1022\<close>), and
  \<open>round_double\<close> rounds to a multiple of it. Results of magnitude \<open>2 ^ 1024\<close> and
  above, which become infinities, are outside the model. An argument is a \<^verbatim>\<open>float\<close>, so
  an amount is meant to be such a number itself; a whole number below \<open>2 ^ 53\<close> in
  magnitude is one. \<open>whole x\<close> says that \<open>x\<close> is a whole number.
\<close>

definition round_half_even :: "real \<Rightarrow> int" where
  "round_half_even x =
     (let f = \<lfloor>x\<rfloor>; d = x - of_int f
      in if d < 1 / 2 then f else if 1 / 2 < d then f + 1 else if even f then f else f + 1)"

definition ulp :: "real \<Rightarrow> real" where
  "ulp x = 2 powr (of_int (max \<lfloor>log 2 \<bar>x\<bar>\<rfloor> (- 1022)) - 52)"

definition round_double :: "real \<Rightarrow> real" where
  "round_double x = (if x = 0 then 0 else of_int (round_half_even (x / ulp x)) * ulp x)"

definition whole :: "real \<Rightarrow> bool" where
  "whole x = (of_int \<lfloor>x\<rfloor> = x)"

text \<open>
  \<open>add_to_balance\<close> and \<open>deduct_from_balance\<close> once more, with the stored sum and
  difference rounded to double precision. Where the rounding matters, in the
  conservation of sums, the calls go through these two; \<open>run_balance_calls\<close> issues the
  credits and debits of one user in order, and its first result tells whether every
  debit returned success. \<open>credited\<close> and \<open>debited\<close> are the exact sums of the amounts
  of the credits and of the debits, \<open>total_amount\<close> the exact sum of all absolute amounts.
\<close>

definition add_to_balance_double :: "store \<Rightarrow> int \<Rightarrow> real \<Rightarrow> bool \<times> store" where
  "add_to_balance_double s user_id amount =
     (rowcount s user_id,
      update_user s user_id (\<lambda>r. r\<lparr>balance := round_double (balance r + amount)\<rparr>))"

definition deduct_from_balance_double :: "store \<Rightarrow> int \<Rightarrow> real \<Rightarrow> bool \<times> store" where
  "deduct_from_balance_double s user_id amount =
     (if amount \<le> 0 then (True, s)
      else
        (let current = (case users s user_id of None \<Rightarrow> 0 | Some row \<Rightarrow> balance row)
         in if current < amount then (False, s)
            else (True, update_user s user_id
                          (\<lambda>r. r\<lparr>balance := round_double (balance r - amount)\<rparr>))))"

datatype balance_call = Credit real | Debit real

fun run_balance_calls :: "store \<Rightarrow> int \<Rightarrow> balance_call list \<Rightarrow> bool \<times> store" where
  "run_balance_calls s u [] = (True, s)"
| "run_balance_calls s u (Credit a # cs) = run_balance_calls (snd (add_to_balance_double s u a)) u cs"
| "run_balance_calls s u (Debit b # cs) =
     (let (ok, s') = deduct_from_balance_double s u b;
          (oks, s'') = run_balance_calls s' u cs
      in (ok \<and> oks, s''))"

fun credited :: "balance_call list \<Rightarrow> real" where
  "credited [] = 0"
| "credited (Credit a # cs) = a + credited cs"
| "credited (Debit b # cs) = credited cs"

fun debited :: "balance_call list \<Rightarrow> real" where
  "debited [] = 0"
| "debited (Credit a # cs) = debited cs"
| "debited (Debit b # cs) = b + debited cs"

fun debit_nonneg :: "balance_call \<Rightarrow> bool" where
  "debit_nonneg (Credit a) = True"
| "debit_nonneg (Debit b) = (0 \<le> b)"

fun amount_of :: "balance_call \<Rightarrow> real" where
  "amount_of (Credit a) = a"
| "amount_of (Debit b) = b"

fun total_amount :: "balance_call list \<Rightarrow> real" where
  "total_amount [] = 0"
| "total_amount (c # cs) = \<bar>amount_of c\<bar> + total_amount cs"



subsection \<open>Concrete stores\<close>

text \<open>User 1 holds 100 spendable, 30 of referral balance and 50 of lifetime earnings;
  user 2 was referred by user 1 and holds nothing.\<close>

definition demo_user :: user_row where
  "demo_user = (new_user_row ''alice'' 0 None)
     \<lparr>balance := 100, referral_balance := 30, referral_balance_all := 50\<rparr>"

definition demo_store :: store where
  "demo_store =
     \<lparr>users = [1 \<mapsto> demo_user, 2 \<mapsto> new_user_row ''bob'' 0 (Some 1)],
      transactions = [], transactions_seq = 0\<rparr>"

definition demo_calls :: "ledger_call list" where
  "demo_calls = [Add_to_balance 1 20, Deduct_from_balance 1 120, Deduct_from_balance 1 1,
                 Deduct_from_referral_balance 1 30, Deduct_from_referral_balance 1 1,
                 Add_to_referral_balance 1 5]"

text \<open>A payment \<^verbatim>\<open>P1\<close> of user 1, pending and then paid through the TON callback; four
  registrations of users that exist already.\<close>

definition pending_store :: store where
  "pending_store = snd (create_pending_transaction demo_store ''P1'' 1 500 ''{}'' 7)"

definition paid_store :: store where
  "paid_store = snd (find_and_complete_ton_transaction pending_store ''P1'' 2)"

definition registration_calls :: "ledger_call list" where
  "registration_calls =
     [Register_user_if_not_exists 2 ''bob2'' (Some 7) 1,
      Register_user_if_not_exists 2 ''bob3'' None 2,
      Register_user_if_not_exists 2 ''bob4'' (Some 2) 3,
      Register_user_if_not_exists 1 ''alice'' (Some 2) 4]"

section \<open>Balance operations\<close>



text \<open>
  Claim C10. For every user and every amount that is zero or negative, both debits return
  \<open>True\<close> and the store they return is the store they were given.
\<close>

theorem deduct_nonpositive_noop:
  "amount \<le> 0 \<Longrightarrow>
     deduct_from_balance s u amount = (True, s) \<and>
     deduct_from_referral_balance s u amount = (True, s)"
  by (simp add: deduct_from_balance_def deduct_from_referral_balance_def)

text \<open>A debit of \<open>-5\<close> from user 1 and a debit of \<open>0\<close> from user 2.\<close>

theorem deduct_nonpositive_noop_witness:
  "(-5::real) \<le> 0 \<and> deduct_from_balance demo_store 1 (-5) = (True, demo_store) \<and>
     deduct_from_referral_balance demo_store 2 0 = (True, demo_store)"
  using deduct_nonpositive_noop [of "-5" demo_store 1] deduct_nonpositive_noop [of 0 demo_store 2]
  by simp

text \<open>One credit with an amount that is not negative, or one debit, keeps both balances
  of any user at or above zero.\<close>

lemma credit_or_debit_step:
  assumes "credit_or_debit c" "0 \<le> get_balance s u" "0 \<le> get_referral_balance s u"
  shows "0 \<le> get_balance (exec_call s c) u \<and> 0 \<le> get_referral_balance (exec_call s c) u"
  using assms
  by (cases c)
     (auto simp: add_to_balance_def add_to_referral_balance_def deduct_from_balance_def
        deduct_from_referral_balance_def get_balance_def get_referral_balance_def
        update_user_def Let_def split: option.splits if_splits)

text \<open>
  Claim C2. Starting from a store in which the spendable and the referral balance of a
  user are not negative, after every call of any sequence of credits with amounts that
  are not negative and of debits, both balances of that user are still not negative.
\<close>

theorem balances_never_negative:
  "0 \<le> get_balance s u \<Longrightarrow> 0 \<le> get_referral_balance s u \<Longrightarrow> list_all credit_or_debit cs \<Longrightarrow>
     \<forall>s' \<in> set (states_after s cs). 0 \<le> get_balance s' u \<and> 0 \<le> get_referral_balance s' u"
proof (induction cs arbitrary: s)
  case Nil
  then show ?case by simp
next
  case (Cons c cs)
  from Cons.prems have step:
    "0 \<le> get_balance (exec_call s c) u \<and> 0 \<le> get_referral_balance (exec_call s c) u"
    using credit_or_debit_step by simp
  with Cons.IH [of "exec_call s c"] Cons.prems(3) show ?case by simp
qed

text \<open>Six calls on user 1, two of them refused debits; the balances after each call.\<close>

theorem balances_never_negative_witness:
  "0 \<le> get_balance demo_store 1 \<and> 0 \<le> get_referral_balance demo_store 1 \<and>
   list_all credit_or_debit demo_calls \<and>
   map (\<lambda>s'. (get_balance s' 1, get_referral_balance s' 1)) (states_after demo_store demo_calls) =
     [(120, 30), (0, 30), (0, 30), (0, 0), (0, 0), (0, 5)] \<and>
   list_all (\<lambda>s'. 0 \<le> get_balance s' 1 \<and> 0 \<le> get_referral_balance s' 1)
     (states_after demo_store demo_calls)"
proof -
  have h1: "0 \<le> get_balance demo_store 1" and h2: "0 \<le> get_referral_balance demo_store 1"
    by (simp_all add: get_balance_def get_referral_balance_def demo_store_def demo_user_def
          new_user_row_def)
  have h3: "list_all credit_or_debit demo_calls"
    by (simp add: demo_calls_def)
  have tr: "map (\<lambda>s'. (get_balance s' 1, get_referral_balance s' 1))
              (states_after demo_store demo_calls) =
            [(120, 30), (0, 30), (0, 30), (0, 0), (0, 0), (0, 5)]"
    by (simp add: demo_calls_def demo_store_def demo_user_def new_user_row_def
          add_to_balance_def add_to_referral_balance_def deduct_from_balance_def
          deduct_from_referral_balance_def get_balance_def get_referral_balance_def
          update_user_def Let_def)
  have "list_all (\<lambda>s'. 0 \<le> get_balance s' 1 \<and> 0 \<le> get_referral_balance s' 1)
          (states_after demo_store demo_calls)"
    using balances_never_negative [OF h1 h2 h3] by (simp add: list_all_iff)
  with h1 h2 h3 tr show ?thesis by blast
qed

section \<open>Conservation of the spendable balance\<close>

text \<open>Rounding a whole number below \<open>2 ^ 53\<close> in magnitude changes nothing: the spacing
  of the doubles around it is a power of two that is at most 1.\<close>

lemma round_half_even_of_int: "round_half_even (of_int m) = m"
  by (simp add: round_half_even_def)

lemma ulp_binade:
  assumes "2 ^ k \<le> \<bar>x\<bar>" "\<bar>x\<bar> < 2 ^ Suc k"
  shows "ulp x = 2 powr (real k - 52)"
proof -
  have pos: "0 < \<bar>x\<bar>" using assms(1) zero_less_power [of "2::real" k] by linarith
  have "\<lfloor>log 2 \<bar>x\<bar>\<rfloor> = int k"
    using assms pos
    by (subst floor_log_eq_powr_iff) (simp_all add: powr_realpow powr_add)
  then show ?thesis by (simp add: ulp_def)
qed

lemma ulp_small_int:
  assumes "n \<noteq> 0" "\<bar>n\<bar> < 2 ^ 53"
  shows "\<exists>k. ulp (of_int n) = 1 / 2 ^ k"
proof -
  let ?x = "of_int n :: real"
  have x1: "1 \<le> \<bar>?x\<bar>" using assms(1) by (simp flip: of_int_abs add: of_int_le_iff [where z = 1, simplified] )
  have x2: "\<bar>?x\<bar> < 2 ^ 53" using assms(2) by (metis of_int_abs of_int_less_numeral_power_cancel_iff)
  have l0: "0 \<le> log 2 \<bar>?x\<bar>" using x1 by simp
  have l1: "log 2 \<bar>?x\<bar> < 53"
    using x1 x2 by (subst log_less_iff) (simp_all add: powr_realpow [where n = 53, simplified])
  define e where "e = \<lfloor>log 2 \<bar>?x\<bar>\<rfloor>"
  have e: "0 \<le> e" "e \<le> 52" using l0 l1 unfolding e_def by linarith+
  have "ulp ?x = 2 powr (of_int e - 52)"
    using e by (simp add: ulp_def e_def max_def)
  also have "of_int e - (52::real) = - real (nat (52 - e))" using e by simp
  also have "2 powr (- real (nat (52 - e))) = 1 / 2 ^ nat (52 - e)"
    by (simp add: powr_minus powr_realpow inverse_eq_divide)
  finally show ?thesis by blast
qed

lemma round_double_of_int:
  assumes "\<bar>n\<bar> < 2 ^ 53"
  shows "round_double (of_int n) = of_int n"
proof (cases "n = 0")
  case True
  then show ?thesis by (simp add: round_double_def)
next
  case False
  from ulp_small_int [OF False assms] obtain k where k: "ulp (of_int n) = 1 / 2 ^ k" by blast
  have "of_int n / ulp (of_int n) = (of_int (n * 2 ^ k) :: real)"
    by (simp add: k)
  then have "round_half_even (of_int n / ulp (of_int n)) = n * 2 ^ k"
    by (simp only: round_half_even_of_int)
  then show ?thesis using False by (simp add: round_double_def k)
qed

lemma round_double_whole:
  assumes "whole x" "\<bar>x\<bar> < 2 ^ 53"
  shows "round_double x = x"
proof -
  from assms(1) have x: "x = of_int \<lfloor>x\<rfloor>" unfolding whole_def by (rule sym)
  have "\<bar>\<lfloor>x\<rfloor>\<bar> < 2 ^ 53"
    using assms(2) x by (metis of_int_abs of_int_less_numeral_power_cancel_iff)
  from round_double_of_int [OF this] x show ?thesis by simp
qed

lemma whole_add: "whole x \<Longrightarrow> whole y \<Longrightarrow> whole (x + y)"
  and whole_diff: "whole x \<Longrightarrow> whole y \<Longrightarrow> whole (x - y)"
  unfolding whole_def by (metis floor_of_int of_int_add, metis floor_of_int of_int_diff)

text \<open>Where no rounding happens the rounded functions are the exact ones.\<close>

lemma add_to_balance_double_exact:
  "users s u = Some row \<Longrightarrow> round_double (balance row + a) = balance row + a \<Longrightarrow>
     add_to_balance_double s u a = add_to_balance s u a"
  by (simp add: add_to_balance_double_def add_to_balance_def update_user_def)

lemma deduct_from_balance_double_exact:
  "users s u = Some row \<Longrightarrow> round_double (balance row - b) = balance row - b \<Longrightarrow>
     deduct_from_balance_double s u b = deduct_from_balance s u b"
  by (simp add: deduct_from_balance_double_def deduct_from_balance_def update_user_def)

text \<open>Three roundings on numerals: \<open>10 ^ 16\<close> is a double, \<open>10 ^ 16 + 1\<close> lies halfway
  between two doubles and goes to \<open>10 ^ 16\<close>, and \<open>2 ^ 52 + 1 / 2\<close> goes to \<open>2 ^ 52\<close>.\<close>

lemma round_double_numeral:
  "(numeral k :: int) < 2 ^ 53 \<Longrightarrow> round_double (numeral k) = numeral k"
  using round_double_of_int [of "numeral k"] by simp

lemma round_double_1e16_exact: "round_double 10000000000000000 = 10000000000000000"
proof -
  have u: "ulp 10000000000000000 = 2"
    using ulp_binade [of 53 10000000000000000] by simp
  have "round_half_even (10000000000000000 / 2) = 5000000000000000"
    using round_half_even_of_int [of 5000000000000000] by simp
  then show ?thesis by (simp add: round_double_def u)
qed
lemma round_double_1e16: "round_double 10000000000000001 = 10000000000000000"
proof -
  have u: "ulp 10000000000000001 = 2"
    using ulp_binade [of 53 10000000000000001] by simp
  have "round_half_even (10000000000000001 / 2) = 5000000000000000"
    by (simp add: round_half_even_def)
  then show ?thesis by (simp add: round_double_def u)
qed

lemma round_double_half: "round_double (9007199254740993 / 2) = 4503599627370496"
proof -
  have u: "ulp (9007199254740993 / 2) = 1"
    using ulp_binade [of 52 "9007199254740993 / 2"] by simp
  have "round_half_even (9007199254740993 / 2) = 4503599627370496"
    by (simp add: round_half_even_def)
  then show ?thesis by (simp add: round_double_def u)
qed

lemmas demo_run_simps =
  demo_store_def new_user_row_def get_balance_def add_to_balance_double_def
  deduct_from_balance_double_def rowcount_def update_user_def round_double_numeral

text \<open>A credit, and a debit of an amount that is not negative and that returns success,
  on a user with a row, whole numbers throughout and the result below \<open>2 ^ 53\<close>: the
  row is still there and its balance moved by the amount.\<close>

lemma total_amount_nonneg: "0 \<le> total_amount cs"
  by (induction cs) simp_all

lemma add_to_balance_double_existing:
  assumes "users s u = Some row" "whole (balance row)" "whole a" "\<bar>balance row + a\<bar> < 2 ^ 53"
  shows "\<exists>row'. users (snd (add_to_balance_double s u a)) u = Some row' \<and>
           balance row' = balance row + a"
proof -
  have "round_double (balance row + a) = balance row + a"
    using assms(2-4) by (intro round_double_whole whole_add)
  then show ?thesis
    using assms(1) by (simp add: add_to_balance_double_def update_user_def)
qed

lemma deduct_from_balance_double_existing:
  assumes "users s u = Some row" "whole (balance row)" "whole b" "\<bar>balance row - b\<bar> < 2 ^ 53"
    and "0 \<le> b" "fst (deduct_from_balance_double s u b)"
  shows "\<exists>row'. users (snd (deduct_from_balance_double s u b)) u = Some row' \<and>
           balance row' = balance row - b"
proof (cases "b = 0")
  case True
  then show ?thesis using assms(1) by (simp add: deduct_from_balance_double_def)
next
  case False
  have "round_double (balance row - b) = balance row - b"
    using assms(2-4) by (intro round_double_whole whole_diff)
  then show ?thesis
    using assms(1,5,6) False
    by (auto simp: deduct_from_balance_double_def update_user_def Let_def split: if_splits)
qed

lemma run_balance_calls_sum:
  "users s u = Some row \<Longrightarrow> whole (balance row) \<Longrightarrow>
   \<bar>balance row\<bar> + total_amount cs < 2 ^ 53 \<Longrightarrow>
   list_all (\<lambda>c. whole (amount_of c)) cs \<Longrightarrow> list_all debit_nonneg cs \<Longrightarrow>
   fst (run_balance_calls s u cs) \<Longrightarrow>
     get_balance (snd (run_balance_calls s u cs)) u = balance row + credited cs - debited cs"
proof (induction cs arbitrary: s row)
  case Nil
  then show ?case by (simp add: get_balance_def)
next
  case (Cons c cs)
  have tot: "0 \<le> total_amount cs" by (rule total_amount_nonneg)
  show ?case
  proof (cases c)
    case (Credit a)
    have bound: "\<bar>balance row + a\<bar> + total_amount cs < 2 ^ 53"
      using Cons.prems(3) Credit by simp
    then have small: "\<bar>balance row + a\<bar> < 2 ^ 53" using tot by linarith
    have wa: "whole a" using Cons.prems(4) Credit by simp
    from add_to_balance_double_existing [OF Cons.prems(1,2) wa small] obtain row' where
      row': "users (snd (add_to_balance_double s u a)) u = Some row'"
            "balance row' = balance row + a"
      by blast
    have "get_balance (snd (run_balance_calls (snd (add_to_balance_double s u a)) u cs)) u =
            balance row' + credited cs - debited cs"
    proof (rule Cons.IH [OF row'(1)])
      show "whole (balance row')" using row'(2) Cons.prems(2) wa by (simp add: whole_add)
      show "\<bar>balance row'\<bar> + total_amount cs < 2 ^ 53" using bound row'(2) by simp
      show "list_all (\<lambda>c. whole (amount_of c)) cs" using Cons.prems(4) by simp
      show "list_all debit_nonneg cs" using Cons.prems(5) by simp
      show "fst (run_balance_calls (snd (add_to_balance_double s u a)) u cs)"
        using Cons.prems(6) Credit by simp
    qed
    then show ?thesis using Credit row'(2) by simp
  next
    case (Debit b)
    from Cons.prems Debit have ok: "fst (deduct_from_balance_double s u b)" and b: "0 \<le> b"
      and rest: "fst (run_balance_calls (snd (deduct_from_balance_double s u b)) u cs)"
      by (auto simp: split_beta Let_def)
    have bound: "\<bar>balance row - b\<bar> + total_amount cs < 2 ^ 53"
      using Cons.prems(3) Debit by simp
    then have small: "\<bar>balance row - b\<bar> < 2 ^ 53" using tot by linarith
    have wb: "whole b" using Cons.prems(4) Debit by simp
    from deduct_from_balance_double_existing [OF Cons.prems(1,2) wb small b ok] obtain row' where
      row': "users (snd (deduct_from_balance_double s u b)) u = Some row'"
            "balance row' = balance row - b"
      by blast
    have "get_balance (snd (run_balance_calls (snd (deduct_from_balance_double s u b)) u cs)) u =
            balance row' + credited cs - debited cs"
    proof (rule Cons.IH [OF row'(1)])
      show "whole (balance row')" using row'(2) Cons.prems(2) wb by (simp add: whole_diff)
      show "\<bar>balance row'\<bar> + total_amount cs < 2 ^ 53" using bound row'(2) by simp
      show "list_all (\<lambda>c. whole (amount_of c)) cs" using Cons.prems(4) by simp
      show "list_all debit_nonneg cs" using Cons.prems(5) by simp
      show "fst (run_balance_calls (snd (deduct_from_balance_double s u b)) u cs)" by (rule rest)
    qed
    then show ?thesis using Debit row'(2) by (simp add: split_beta Let_def)
  qed
qed

text \<open>
  Claim C3, as stated, fails, in four ways. A debit of \<open>-5\<close> returns success and changes
  nothing, so after a credit of 10 the balance is 10 and not 15. User 9 has no row and
  reads as a balance of 0; a credit of 10 changes nothing and the balance still reads 0.
  After credits of \<open>10 ^ 16\<close> and 1 the balance is \<open>10 ^ 16\<close>, the sum rounded to double
  precision; after credits of \<open>2 ^ 52\<close> and \<open>1 / 2\<close> it is \<open>2 ^ 52\<close>.
\<close>

theorem conservation_counterexample:
  "get_balance demo_store 2 = 0 \<and>
   fst (run_balance_calls demo_store 2 [Credit 10, Debit (-5)]) \<and>
   get_balance (snd (run_balance_calls demo_store 2 [Credit 10, Debit (-5)])) 2 = 10 \<and>
   credited [Credit 10, Debit (-5)] - debited [Credit 10, Debit (-5)] = 15 \<and>
   get_balance demo_store 9 = 0 \<and>
   fst (run_balance_calls demo_store 9 [Credit 10]) \<and>
   get_balance (snd (run_balance_calls demo_store 9 [Credit 10])) 9 = 0 \<and>
   credited [Credit 10] - debited [Credit 10] = 10 \<and>
   fst (run_balance_calls demo_store 2 [Credit 10000000000000000, Credit 1]) \<and>
   get_balance (snd (run_balance_calls demo_store 2 [Credit 10000000000000000, Credit 1])) 2 =
     10000000000000000 \<and>
   credited [Credit 10000000000000000, Credit 1] -
     debited [Credit 10000000000000000, Credit 1] = 10000000000000001 \<and>
   fst (run_balance_calls demo_store 2 [Credit 4503599627370496, Credit (1 / 2)]) \<and>
   get_balance (snd (run_balance_calls demo_store 2 [Credit 4503599627370496, Credit (1 / 2)])) 2 =
     4503599627370496 \<and>
   credited [Credit 4503599627370496, Credit (1 / 2)] -
     debited [Credit 4503599627370496, Credit (1 / 2)] = 9007199254740993 / 2 \<and>
   get_balance (snd (run_balance_calls demo_store 2 [Credit 10, Debit (-5)])) 2 \<noteq>
     credited [Credit 10, Debit (-5)] - debited [Credit 10, Debit (-5)] \<and>
   get_balance (snd (run_balance_calls demo_store 9 [Credit 10])) 9 \<noteq>
     credited [Credit 10] - debited [Credit 10] \<and>
   get_balance (snd (run_balance_calls demo_store 2 [Credit 10000000000000000, Credit 1])) 2 \<noteq>
     credited [Credit 10000000000000000, Credit 1] -
       debited [Credit 10000000000000000, Credit 1] \<and>
   get_balance (snd (run_balance_calls demo_store 2 [Credit 4503599627370496, Credit (1 / 2)])) 2 \<noteq>
     credited [Credit 4503599627370496, Credit (1 / 2)] -
       debited [Credit 4503599627370496, Credit (1 / 2)]"
proof -
  have a: "get_balance demo_store 2 = 0" "get_balance demo_store 9 = 0"
    by (simp_all add: demo_run_simps)
  have b: "fst (run_balance_calls demo_store 2 [Credit 10, Debit (-5)])"
    "get_balance (snd (run_balance_calls demo_store 2 [Credit 10, Debit (-5)])) 2 = 10"
    by (simp_all add: demo_run_simps)
  have c: "fst (run_balance_calls demo_store 9 [Credit 10])"
    "get_balance (snd (run_balance_calls demo_store 9 [Credit 10])) 9 = 0"
    by (simp_all add: demo_run_simps)
  have d: "fst (run_balance_calls demo_store 2 [Credit 10000000000000000, Credit 1])"
    "get_balance (snd (run_balance_calls demo_store 2 [Credit 10000000000000000, Credit 1])) 2 =
       10000000000000000"
    by (simp_all add: demo_run_simps round_double_1e16_exact round_double_1e16)
  have e: "fst (run_balance_calls demo_store 2 [Credit 4503599627370496, Credit (1 / 2)])"
    "get_balance (snd (run_balance_calls demo_store 2 [Credit 4503599627370496, Credit (1 / 2)])) 2 =
       4503599627370496"
    by (simp_all add: demo_run_simps round_double_half)
  from a b c d e show ?thesis by simp
qed

text \<open>
  Claim C3, amended. For a user with a row whose balance is 0, and for every sequence of
  credits through \<open>add_to_balance\<close> and debits through \<open>deduct_from_balance\<close> in which
  every debit has an amount that is not negative and returns success, every amount is a
  whole number and the absolute amounts add up to less than \<open>2 ^ 53\<close>, the final balance
  is the sum of the credits minus the sum of the debits.
\<close>

theorem conservation:
  "users s u = Some row \<Longrightarrow> balance row = 0 \<Longrightarrow> list_all debit_nonneg cs \<Longrightarrow>
   list_all (\<lambda>c. whole (amount_of c)) cs \<Longrightarrow> total_amount cs < 2 ^ 53 \<Longrightarrow>
   fst (run_balance_calls s u cs) \<Longrightarrow>
     get_balance (snd (run_balance_calls s u cs)) u = credited cs - debited cs"
  using run_balance_calls_sum [of s u row cs] by (simp add: whole_def)

text \<open>Credit 100, debit 60, credit 5, debit 0, debit 45 leaves 0; a second debit of 60
  right after the first one is refused.\<close>

theorem conservation_witness:
  "users demo_store 2 = Some (new_user_row ''bob'' 0 (Some 1)) \<and>
   balance (new_user_row ''bob'' 0 (Some 1)) = 0 \<and>
   list_all debit_nonneg [Credit 100, Debit 60, Credit 5, Debit 0, Debit 45] \<and>
   list_all (\<lambda>c. whole (amount_of c)) [Credit 100, Debit 60, Credit 5, Debit 0, Debit 45] \<and>
   total_amount [Credit 100, Debit 60, Credit 5, Debit 0, Debit 45] < 2 ^ 53 \<and>
   fst (run_balance_calls demo_store 2 [Credit 100, Debit 60, Credit 5, Debit 0, Debit 45]) \<and>
   get_balance (snd (run_balance_calls demo_store 2 [Credit 100, Debit 60, Credit 5, Debit 0, Debit 45])) 2 = 0 \<and>
   \<not> fst (run_balance_calls demo_store 2 [Credit 100, Debit 60, Debit 60])"
proof -
  let ?cs = "[Credit 100, Debit 60, Credit 5, Debit 0, Debit 45]"
  have h1: "users demo_store 2 = Some (new_user_row ''bob'' 0 (Some 1))"
    by (simp add: demo_store_def)
  have h2: "balance (new_user_row ''bob'' 0 (Some 1)) = 0"
    by (simp add: new_user_row_def)
  have h3: "list_all debit_nonneg ?cs" by simp
  have h4: "list_all (\<lambda>c. whole (amount_of c)) ?cs" by (simp add: whole_def)
  have h5: "total_amount ?cs < 2 ^ 53" by simp
  have h6: "fst (run_balance_calls demo_store 2 ?cs)"
    by (simp add: demo_run_simps)
  have h7: "\<not> fst (run_balance_calls demo_store 2 [Credit 100, Debit 60, Debit 60])"
    by (simp add: demo_run_simps)
  from conservation [OF h1 h2 h3 h4 h5 h6]
  have "get_balance (snd (run_balance_calls demo_store 2 ?cs)) 2 = 0"
    by simp
  with h1 h2 h3 h4 h5 h6 h7 show ?thesis by blast
qed

section \<open>Credits\<close>




section \<open>Referral lifetime earnings\<close>








section \<open>Transactions\<close>

text \<open>The two concrete stores with the payment \<^verbatim>\<open>P1\<close>, written out.\<close>

lemma pending_store_eq:
  "pending_store = demo_store\<lparr>transactions :=
      [\<lparr>tx_username = None, tx_transaction_id = 1, tx_payment_id = ''P1'', tx_user_id = 1,
        tx_status = ''pending'', tx_amount_rub = 500, tx_amount_currency = None,
        tx_currency_name = None, tx_payment_method = None, tx_metadata = ''{}'',
        tx_created_date = 7\<rparr>], transactions_seq := 1\<rparr>"
  by (simp add: pending_store_def create_pending_transaction_def demo_store_def)

lemma paid_store_eq:
  "paid_store = demo_store\<lparr>transactions :=
      [\<lparr>tx_username = None, tx_transaction_id = 1, tx_payment_id = ''P1'', tx_user_id = 1,
        tx_status = ''paid'', tx_amount_rub = 500, tx_amount_currency = Some 2,
        tx_currency_name = Some ''TON'', tx_payment_method = Some ''TON'', tx_metadata = ''{}'',
        tx_created_date = 7\<rparr>], transactions_seq := 1\<rparr>"
  by (simp add: paid_store_def pending_store_eq find_and_complete_ton_transaction_def
        complete_ton_def demo_store_def)
lemma demo_store_transactions: "transactions demo_store = []"
  by (simp add: demo_store_def)

lemma paid_store_transactions:
  "map (\<lambda>t. (tx_payment_id t, tx_status t)) (transactions paid_store) = [(''P1'', ''paid'')]"
  by (simp add: paid_store_eq)

lemma pending_store_transactions:
  "map (\<lambda>t. (tx_payment_id t, tx_status t)) (transactions pending_store) = [(''P1'', ''pending'')]"
  by (simp add: pending_store_eq)

lemma paid_store_find:
  "find (\<lambda>t. tx_payment_id t = p \<and> tx_status t = ''pending'') (transactions paid_store) = None"
  by (simp add: paid_store_eq)
lemma pending_store_find:
  "find (\<lambda>t. tx_payment_id t = ''P1'' \<and> tx_status t = ''pending'') (transactions pending_store) =
     Some (hd (transactions pending_store))"
  by (simp add: pending_store_eq)

lemma pending_store_metadata: "tx_metadata (hd (transactions pending_store)) = ''{}''"
  by (simp add: pending_store_eq)

text \<open>
  Claim C4. When a row with the payment id exists, \<open>create_pending_transaction\<close> returns
  \<open>0\<close> and the store it was given, whatever the other arguments; a call that inserts
  returns an id above \<open>0\<close>. So of two calls with one payment id the second returns \<open>0\<close>
  and leaves the store, the first row included, as the first call left it.
\<close>

theorem duplicate_payment_id_rejected:
  "(payment_id \<in> set (map tx_payment_id (transactions s)) \<longrightarrow>
      create_pending_transaction s payment_id user_id amount_rub metadata now = (0, s)) \<and>
   (payment_id \<notin> set (map tx_payment_id (transactions s)) \<longrightarrow>
      0 < fst (create_pending_transaction s payment_id user_id amount_rub metadata now)) \<and>
   create_pending_transaction
      (snd (create_pending_transaction s payment_id user_id amount_rub metadata now))
      payment_id user_id' amount_rub' metadata' now' =
     (0, snd (create_pending_transaction s payment_id user_id amount_rub metadata now))"
  by (simp add: create_pending_transaction_def Let_def)

text \<open>The payment \<^verbatim>\<open>P1\<close> is created with the id 1; a second creation with the same payment
  id, for another user and amount, returns \<open>0\<close> and the store as it was.\<close>

theorem duplicate_payment_id_rejected_witness:
  "''P1'' \<notin> set (map tx_payment_id (transactions demo_store)) \<and>
   ''P1'' \<in> set (map tx_payment_id (transactions pending_store)) \<and>
   create_pending_transaction demo_store ''P1'' 1 500 ''{}'' 7 = (1, pending_store) \<and>
   create_pending_transaction pending_store ''P1'' 2 900 ''{\"a\": 1}'' 8 = (0, pending_store)"
proof -
  have h1: "''P1'' \<notin> set (map tx_payment_id (transactions demo_store))"
    by (simp add: demo_store_def)
  have h2: "''P1'' \<in> set (map tx_payment_id (transactions pending_store))"
    by (simp add: pending_store_eq)
  have a: "create_pending_transaction demo_store ''P1'' 1 500 ''{}'' 7 = (1, pending_store)"
    by (simp add: pending_store_def create_pending_transaction_def demo_store_def)
  from duplicate_payment_id_rejected [of "''P1''" pending_store 2 900 "''{\"a\": 1}''" 8] h2
  have b: "create_pending_transaction pending_store ''P1'' 2 900 ''{\"a\": 1}'' 8 = (0, pending_store)"
    by blast
  from h1 h2 a b show ?thesis by blast
qed

text \<open>What the function does without and with a pending row of the payment id, and what
  completing does to a row.\<close>

lemma complete_ton_fields:
  "tx_payment_id (complete_ton a t) = tx_payment_id t"
  "tx_status (complete_ton a t) = ''paid''"
  by (simp_all add: complete_ton_def)

lemma find_and_complete_none:
  "find (\<lambda>t. tx_payment_id t = p \<and> tx_status t = ''pending'') (transactions s) = None \<Longrightarrow>
     find_and_complete_ton_transaction s p a = (None, s)"
  by (simp add: find_and_complete_ton_transaction_def)

lemma find_and_complete_some:
  "find (\<lambda>t. tx_payment_id t = p \<and> tx_status t = ''pending'') (transactions s) = Some t0 \<Longrightarrow>
     find_and_complete_ton_transaction s p a =
       (Some (tx_metadata t0),
        s\<lparr>transactions := map (\<lambda>t. if tx_payment_id t = p then complete_ton a t else t)
                              (transactions s)\<rparr>)"
  by (simp add: find_and_complete_ton_transaction_def)

text \<open>
  Claim C5, as stated, fails in its last part: for a payment id that no row has and for
  one whose row is already paid the function returns the same value, \<^verbatim>\<open>None\<close>, and the
  store unchanged.
\<close>

theorem resolve_failures_counterexample:
  "''P1'' \<notin> set (map tx_payment_id (transactions demo_store)) \<and>
   map (\<lambda>t. (tx_payment_id t, tx_status t)) (transactions paid_store) = [(''P1'', ''paid'')] \<and>
   find_and_complete_ton_transaction demo_store ''P1'' 2 = (None, demo_store) \<and>
   find_and_complete_ton_transaction paid_store ''P1'' 2 = (None, paid_store) \<and>
   fst (find_and_complete_ton_transaction demo_store ''P1'' 2) =
     fst (find_and_complete_ton_transaction paid_store ''P1'' 2)"
proof -
  have a: "find_and_complete_ton_transaction demo_store ''P1'' 2 = (None, demo_store)"
    by (rule find_and_complete_none) (simp add: demo_store_transactions)
  have b: "find_and_complete_ton_transaction paid_store ''P1'' 2 = (None, paid_store)"
    by (rule find_and_complete_none) (rule paid_store_find)
  show ?thesis
    unfolding a b by (simp add: demo_store_transactions paid_store_transactions)
qed

text \<open>
  Claim C5, amended. \<open>find_and_complete_ton_transaction\<close> succeeds exactly when a row
  with the payment id has the status \<^verbatim>\<open>pending\<close>; what it returns then is the metadata of
  such a row, and afterwards every row is in its place, the rows of that payment id with
  the status \<^verbatim>\<open>paid\<close>, the TON amount, currency and method and their other fields as
  before, every other row and the users as before. Otherwise, whether no row has the
  payment id or its row is resolved already, it returns \<^verbatim>\<open>None\<close> and the store unchanged.
\<close>

theorem resolve_only_pending:
  "(fst (find_and_complete_ton_transaction s payment_id amount_ton) \<noteq> None \<longleftrightarrow>
      (\<exists>t \<in> set (transactions s). tx_payment_id t = payment_id \<and> tx_status t = ''pending'')) \<and>
   (\<forall>md. fst (find_and_complete_ton_transaction s payment_id amount_ton) = Some md \<longrightarrow>
      (\<exists>t \<in> set (transactions s).
          tx_payment_id t = payment_id \<and> tx_status t = ''pending'' \<and> tx_metadata t = md)) \<and>
   (fst (find_and_complete_ton_transaction s payment_id amount_ton) \<noteq> None \<longrightarrow>
      users (snd (find_and_complete_ton_transaction s payment_id amount_ton)) = users s \<and>
      transactions_seq (snd (find_and_complete_ton_transaction s payment_id amount_ton)) =
        transactions_seq s \<and>
      length (transactions (snd (find_and_complete_ton_transaction s payment_id amount_ton))) =
        length (transactions s) \<and>
      (\<forall>i < length (transactions s).
          transactions (snd (find_and_complete_ton_transaction s payment_id amount_ton)) ! i =
            (if tx_payment_id (transactions s ! i) = payment_id
             then (transactions s ! i)
                    \<lparr>tx_status := ''paid'', tx_amount_currency := Some amount_ton,
                     tx_currency_name := Some ''TON'', tx_payment_method := Some ''TON''\<rparr>
             else transactions s ! i))) \<and>
   (fst (find_and_complete_ton_transaction s payment_id amount_ton) = None \<longrightarrow>
      find_and_complete_ton_transaction s payment_id amount_ton = (None, s))"
proof (cases "find (\<lambda>t. tx_payment_id t = payment_id \<and> tx_status t = ''pending'') (transactions s)")
  case None
  have no: "\<not> (\<exists>t \<in> set (transactions s). tx_payment_id t = payment_id \<and> tx_status t = ''pending'')"
    using None unfolding find_None_iff by blast
  show ?thesis
    unfolding find_and_complete_none [OF None] using no by simp
next
  case (Some t0)
  have t0: "t0 \<in> set (transactions s) \<and> tx_payment_id t0 = payment_id \<and> tx_status t0 = ''pending''"
    using Some unfolding find_Some_iff by (metis nth_mem)
  then have ex: "\<exists>t \<in> set (transactions s). tx_payment_id t = payment_id \<and> tx_status t = ''pending''"
    by blast
  have md: "\<exists>t \<in> set (transactions s).
              tx_payment_id t = payment_id \<and> tx_status t = ''pending'' \<and>
              tx_metadata t = tx_metadata t0"
    using t0 by blast
  have rows: "\<forall>i < length (transactions s).
      map (\<lambda>t. if tx_payment_id t = payment_id then complete_ton amount_ton t else t)
          (transactions s) ! i =
        (if tx_payment_id (transactions s ! i) = payment_id
         then (transactions s ! i)
                \<lparr>tx_status := ''paid'', tx_amount_currency := Some amount_ton,
                 tx_currency_name := Some ''TON'', tx_payment_method := Some ''TON''\<rparr>
         else transactions s ! i)"
    by (simp add: complete_ton_def)
  show ?thesis
    unfolding find_and_complete_some [OF Some] using ex md rows by simp
qed

text \<open>The pending payment \<^verbatim>\<open>P1\<close> is completed once: its metadata is returned and its row
  is still the only one, now paid in TON. The repeated callback and a callback for the
  unknown \<^verbatim>\<open>P2\<close> both get \<^verbatim>\<open>None\<close>.\<close>

theorem resolve_only_pending_witness:
  "find_and_complete_ton_transaction pending_store ''P1'' 2 = (Some ''{}'', paid_store) \<and>
   list_ex (\<lambda>t. tx_payment_id t = ''P1'' \<and> tx_status t = ''pending'' \<and> tx_metadata t = ''{}'')
     (transactions pending_store) \<and>
   users paid_store = users pending_store \<and>
   length (transactions paid_store) = 1 \<and>
   transactions paid_store ! 0 =
     (transactions pending_store ! 0)
       \<lparr>tx_status := ''paid'', tx_amount_currency := Some 2,
        tx_currency_name := Some ''TON'', tx_payment_method := Some ''TON''\<rparr> \<and>
   find_and_complete_ton_transaction paid_store ''P1'' 2 = (None, paid_store) \<and>
   find_and_complete_ton_transaction paid_store ''P2'' 2 = (None, paid_store)"
proof -
  have a: "find_and_complete_ton_transaction pending_store ''P1'' 2 = (Some ''{}'', paid_store)"
    unfolding paid_store_def find_and_complete_some [OF pending_store_find]
    by (simp add: pending_store_metadata)
  have ok: "fst (find_and_complete_ton_transaction pending_store ''P1'' 2) = Some ''{}''"
    and s': "snd (find_and_complete_ton_transaction pending_store ''P1'' 2) = paid_store"
    unfolding a by simp_all
  have len: "length (transactions pending_store) = 1"
    and pid: "tx_payment_id (transactions pending_store ! 0) = ''P1''"
    by (simp_all add: pending_store_eq)
  note inst = resolve_only_pending [of pending_store "''P1''" 2, unfolded ok s']
  have b: "list_ex (\<lambda>t. tx_payment_id t = ''P1'' \<and> tx_status t = ''pending'' \<and> tx_metadata t = ''{}'')
             (transactions pending_store)"
    using inst unfolding list_ex_iff by blast
  have c: "users paid_store = users pending_store" "length (transactions paid_store) = 1"
    using inst len by simp_all
  have "0 < length (transactions pending_store)" using len by simp
  with inst have d: "transactions paid_store ! 0 =
     (if tx_payment_id (transactions pending_store ! 0) = ''P1''
      then (transactions pending_store ! 0)
             \<lparr>tx_status := ''paid'', tx_amount_currency := Some 2,
              tx_currency_name := Some ''TON'', tx_payment_method := Some ''TON''\<rparr>
      else transactions pending_store ! 0)"
    by blast
  have n1: "fst (find_and_complete_ton_transaction paid_store ''P1'' 2) = None"
   and n2: "fst (find_and_complete_ton_transaction paid_store ''P2'' 2) = None"
    by (simp_all add: find_and_complete_none [OF paid_store_find])
  from resolve_only_pending [of paid_store "''P1''" 2] n1
  have e: "find_and_complete_ton_transaction paid_store ''P1'' 2 = (None, paid_store)" by blast
  from resolve_only_pending [of paid_store "''P2''" 2] n2
  have f: "find_and_complete_ton_transaction paid_store ''P2'' 2 = (None, paid_store)" by blast
  from a b c d e f show ?thesis unfolding pid by simp
qed

section \<open>Registration and the referring user\<close>

text \<open>
  Claim C7 at a failing input. User 5 has no row; registering it with the referrer 5
  stores \<open>referred_by = 5\<close>, its own id. The branch for a user that exists does refuse
  the same referrer: registered first without a referrer and then again with the
  referrer 5, the user keeps \<open>referred_by\<close> unset.
\<close>

theorem register_new_user_self_referral:
  "get_user demo_store 5 = None \<and>
   referred_by_of (register_user_if_not_exists demo_store 5 ''eve'' (Some 5) 0) 5 = Some 5 \<and>
   referred_by_of
     (register_user_if_not_exists (register_user_if_not_exists demo_store 5 ''eve'' None 0)
        5 ''eve'' (Some 5) 1) 5 = None"
  by (simp add: register_user_if_not_exists_def referred_by_of_def get_user_def demo_store_def
        new_user_row_def update_user_def)

text \<open>No call changes a \<open>referred_by\<close> that is set.\<close>

lemma referred_by_of_exec_call:
  "referred_by_of s u = Some r \<Longrightarrow> referred_by_of (exec_call s c) u = Some r"
  by (cases c)
     (auto simp: referred_by_of_def get_user_def update_user_def register_user_if_not_exists_def
        add_to_referral_balance_def set_referral_balance_def set_referral_balance_all_def
        add_to_referral_balance_all_def adjust_user_balance_def set_balance_def
        add_to_balance_def deduct_from_balance_def deduct_from_referral_balance_def
        create_pending_transaction_def find_and_complete_ton_transaction_def Let_def
        split: option.splits if_splits)

text \<open>
  Claim C8. Once \<open>referred_by\<close> of a user is set, it has the same value after every call
  of any sequence of calls, registrations of that user with any referrer included.
\<close>

theorem referred_by_set_once:
  "referred_by_of s u = Some r \<Longrightarrow>
     \<forall>s' \<in> set (states_after s cs). referred_by_of s' u = Some r"
proof (induction cs arbitrary: s)
  case Nil
  then show ?case by simp
next
  case (Cons c cs)
  have "referred_by_of (exec_call s c) u = Some r"
    using Cons.prems by (rule referred_by_of_exec_call)
  with Cons.IH [of "exec_call s c"] show ?case by simp
qed

text \<open>User 2 keeps the referrer 1 through registrations with the referrers 7, none and 2;
  user 1, whose referrer is unset, gets the referrer 2 from the last call.\<close>

theorem referred_by_set_once_witness:
  "referred_by_of demo_store 2 = Some 1 \<and>
   list_all (\<lambda>s'. referred_by_of s' 2 = Some 1) (states_after demo_store registration_calls) \<and>
   map (\<lambda>s'. referred_by_of s' 1) (states_after demo_store registration_calls) =
     [None, None, None, Some 2]"
proof -
  have h: "referred_by_of demo_store 2 = Some 1"
    by (simp add: referred_by_of_def get_user_def demo_store_def new_user_row_def)
  have a: "list_all (\<lambda>s'. referred_by_of s' 2 = Some 1) (states_after demo_store registration_calls)"
    using referred_by_set_once [OF h, of registration_calls] by (simp add: list_all_iff)
  have b: "map (\<lambda>s'. referred_by_of s' 1) (states_after demo_store registration_calls) =
     [None, None, None, Some 2]"
    by (simp add: registration_calls_def register_user_if_not_exists_def referred_by_of_def
          get_user_def demo_store_def demo_user_def new_user_row_def update_user_def)
  from h a b show ?thesis by blast
qed

end
